theory Spec2Isabelle
  imports Complex_Main
begin

section \<open>Python strings\<close>

text \<open>
  Strings are lists of 8-bit characters. ASCII text is modelled exactly; the
  non-ASCII symbols that the tools print are written as their UTF-8 bytes.
  \<open>strip\<close> and \<open>lower\<close> act on the ASCII range.
\<close>

abbreviation NL :: char where
  "NL \<equiv> CHR 0x0A"

text \<open>The single quote.\<close>

abbreviation SQ :: char where
  "SQ \<equiv> CHR 0x27"

fun startswith :: "string \<Rightarrow> string \<Rightarrow> bool" where
  "startswith s [] = True"
| "startswith [] (p # ps) = False"
| "startswith (c # cs) (p # ps) = (c = p \<and> startswith cs ps)"

text \<open>\<open>str_in sub s\<close> is Python's \<open>sub in s\<close>.\<close>

fun str_in :: "string \<Rightarrow> string \<Rightarrow> bool" where
  "str_in sub [] = (sub = [])"
| "str_in sub (c # cs) = (startswith (c # cs) sub \<or> str_in sub cs)"

text \<open>\<open>split_char sep s\<close> is \<open>s.split(sep)\<close> for a one-character separator.\<close>

fun split_char :: "char \<Rightarrow> string \<Rightarrow> string list" where
  "split_char sep [] = [[]]"
| "split_char sep (c # cs) =
     (if c = sep then [] # split_char sep cs
      else (case split_char sep cs of
              [] \<Rightarrow> [[c]]
            | l # ls \<Rightarrow> (c # l) # ls))"

fun join :: "string \<Rightarrow> string list \<Rightarrow> string" where
  "join sep [] = []"
| "join sep [x] = x"
| "join sep (x # y # ys) = x @ sep @ join sep (y # ys)"

definition isspace :: "char \<Rightarrow> bool" where
  "isspace c = (c \<in> set [CHR 0x20, CHR 0x09, CHR 0x0A, CHR 0x0B, CHR 0x0C, CHR 0x0D,
                         CHR 0x1C, CHR 0x1D, CHR 0x1E, CHR 0x1F])"

definition strip :: "string \<Rightarrow> string" where
  "strip s = rev (dropWhile isspace (rev (dropWhile isspace s)))"

definition lower_char :: "char \<Rightarrow> char" where
  "lower_char c =
     (case map_of (zip ''ABCDEFGHIJKLMNOPQRSTUVWXYZ'' ''abcdefghijklmnopqrstuvwxyz'') c of
        None \<Rightarrow> c
      | Some l \<Rightarrow> l)"

definition lower :: "string \<Rightarrow> string" where
  "lower s = map lower_char s"

text \<open>\<open>count_char s c\<close> is \<open>s.count(c)\<close> for a one-character argument.\<close>

definition count_char :: "string \<Rightarrow> char \<Rightarrow> nat" where
  "count_char s c = length (filter (\<lambda>x. x = c) s)"

text \<open>\<open>s.replace(old, new)\<close>; with an empty \<open>old\<close> Python inserts \<open>new\<close> around every character.\<close>

function replace_from :: "string \<Rightarrow> string \<Rightarrow> string \<Rightarrow> string" where
  "replace_from old new s =
     (if old = [] then s
      else (case s of
              [] \<Rightarrow> []
            | c # cs \<Rightarrow>
                if startswith s old then new @ replace_from old new (drop (length old) s)
                else c # replace_from old new cs))"
  by pat_completeness auto
termination
  by (relation "measure (\<lambda>(old, new, s). length s)") auto

declare replace_from.simps [simp del]

definition replace :: "string \<Rightarrow> string \<Rightarrow> string \<Rightarrow> string" where
  "replace s old new =
     (if old = [] then new @ concat (map (\<lambda>c. c # new) s) else replace_from old new s)"

definition digit_char :: "nat \<Rightarrow> char" where
  "digit_char d = ''0123456789'' ! (d mod 10)"

text \<open>\<open>str_nat n\<close> is \<open>str(n)\<close> for a non-negative integer.\<close>

function str_nat :: "nat \<Rightarrow> string" where
  "str_nat n = (if n < 10 then [digit_char n] else str_nat (n div 10) @ [digit_char n])"
  by pat_completeness auto
termination
  by (relation "measure (\<lambda>n. n)") auto

declare str_nat.simps [simp del]

text \<open>The position of the first element that satisfies a test, as a \<open>for ... break\<close> loop finds it.\<close>

fun first_index :: "('a \<Rightarrow> bool) \<Rightarrow> 'a list \<Rightarrow> nat option" where
  "first_index P [] = None"
| "first_index P (x # xs) =
     (if P x then Some 0 else map_option Suc (first_index P xs))"

section \<open>Exceptions\<close>

datatype exn =
    SyntaxError string
  | AttributeError string
  | TypeError string
  | IndexError string
  | OSError string
  | KeyError string

fun str_exn :: "exn \<Rightarrow> string" where
  "str_exn (SyntaxError m) = m"
| "str_exn (AttributeError m) = m"
| "str_exn (TypeError m) = m"
| "str_exn (IndexError m) = m"
| "str_exn (OSError m) = m"
| "str_exn (KeyError m) = m"

fun exn_name :: "exn \<Rightarrow> string" where
  "exn_name (SyntaxError m) = ''SyntaxError''"
| "exn_name (AttributeError m) = ''AttributeError''"
| "exn_name (TypeError m) = ''TypeError''"
| "exn_name (IndexError m) = ''IndexError''"
| "exn_name (OSError m) = ''OSError''"
| "exn_name (KeyError m) = ''KeyError''"

section \<open>The syntax tree and \<open>ast.walk\<close>\<close>

text \<open>
  The node kinds that the tools inspect, with the fields they read; every other kind of
  node is \<open>Other\<close> with its child nodes in field order. A \<open>Call\<close> carries its line number.
  \<open>Arguments names children\<close> is the \<open>arguments\<close> node of a function definition:
  \<open>names\<close> are the names of \<open>args.args\<close>.
\<close>

datatype const = CStr string | CBytes string | COther

datatype node =
    Module "node list"
  | ClassDef string "node list" "node list" "node list" "node list"
  | FunctionDef string node "node list" "node list" "node option"
  | Arguments "string list" "node list"
  | Import "string list"
  | ImportFrom "string option" "string list"
  | Assign "node list" node
  | Expr node
  | Yield "node option"
  | Call nat node "node list" "node list"
  | Attribute node string
  | Name string
  | Constant const
  | Other "node list"

fun opt_list :: "'a option \<Rightarrow> 'a list" where
  "opt_list None = []"
| "opt_list (Some x) = [x]"

fun iter_child_nodes :: "node \<Rightarrow> node list" where
  "iter_child_nodes (Module body) = body"
| "iter_child_nodes (ClassDef nm bases keywords body decorators) =
     bases @ keywords @ body @ decorators"
| "iter_child_nodes (FunctionDef nm args body decorators returns) =
     args # body @ decorators @ opt_list returns"
| "iter_child_nodes (Arguments names cs) = cs"
| "iter_child_nodes (Import names) = []"
| "iter_child_nodes (ImportFrom m names) = []"
| "iter_child_nodes (Assign targets v) = targets @ [v]"
| "iter_child_nodes (Expr v) = [v]"
| "iter_child_nodes (Yield v) = opt_list v"
| "iter_child_nodes (Call lineno f args keywords) = f # args @ keywords"
| "iter_child_nodes (Attribute v a) = [v]"
| "iter_child_nodes (Name i) = []"
| "iter_child_nodes (Constant c) = []"
| "iter_child_nodes (Other cs) = cs"

lemma sum_list_Suc:
  "sum_list (map (\<lambda>c. Suc (f c)) xs) = sum_list (map f xs) + length xs"
  by (induction xs) simp_all

lemma size_children:
  "sum_list (map (\<lambda>c. Suc (size c)) (iter_child_nodes n)) \<le> size n"
proof (cases n)
  case (FunctionDef nm args body decorators returns)
  then show ?thesis
    by (cases returns) (simp_all add: size_list_conv_sum_list sum_list_Suc)
next
  case (Yield v)
  then show ?thesis by (cases v) simp_all
qed (simp_all add: size_list_conv_sum_list sum_list_Suc)

text \<open>\<open>ast.walk\<close>: breadth first, from a queue.\<close>

function walk_queue :: "node list \<Rightarrow> node list" where
  "walk_queue [] = []"
| "walk_queue (n # todo) = n # walk_queue (todo @ iter_child_nodes n)"
  by pat_completeness auto
termination
  by (relation "measure (\<lambda>q. sum_list (map (\<lambda>c. Suc (size c)) q))")
     (simp_all add: le_imp_less_Suc size_children)

definition walk :: "node \<Rightarrow> node list" where
  "walk n = walk_queue [n]"

section \<open>The file system\<close>

text \<open>
  A path names nothing, a file that cannot be opened for reading, or a file with its
  content and whether it can be opened for writing.
\<close>

datatype file_entry = File string bool | Unreadable

type_synonym fs = "string \<Rightarrow> file_entry option"

fun read_file :: "fs \<Rightarrow> string \<Rightarrow> exn + string" where
  "read_file files p =
     (case files p of
        None \<Rightarrow> Inl (OSError (''[Errno 2] No such file or directory: '' @ p))
      | Some Unreadable \<Rightarrow> Inl (OSError (''[Errno 13] Permission denied: '' @ p))
      | Some (File c w) \<Rightarrow> Inr c)"

fun write_file :: "fs \<Rightarrow> string \<Rightarrow> string \<Rightarrow> exn + fs" where
  "write_file files p c =
     (case files p of
        None \<Rightarrow> Inr (files(p \<mapsto> File c True))
      | Some Unreadable \<Rightarrow> Inl (OSError (''[Errno 13] Permission denied: '' @ p))
      | Some (File old w) \<Rightarrow>
          if w then Inr (files(p \<mapsto> File c True))
          else Inl (OSError (''[Errno 13] Permission denied: '' @ p)))"

section \<open>The validator\<close>

definition VALID_WIDGETS :: "string list" where
  "VALID_WIDGETS =
     [''Button'', ''Label'', ''Input'', ''Static'', ''TextArea'', ''Table'',
      ''DataTable'', ''ListView'', ''ListItem'', ''Tabs'', ''TabPane'',
      ''Switch'', ''Checkbox'', ''RadioSet'', ''RadioButton'', ''ProgressBar'',
      ''Select'', ''OptionList'', ''DirectoryTree'', ''FileTree'',
      ''DataGrid'', ''Tree'', ''Markdown'', ''Log'', ''Pretty'', ''Sparkline'',
      ''Gauge'', ''Horizontal'', ''Vertical'', ''Container'', ''ContentSwitcher'',
      ''Placeholder'', ''LoadingIndicator'', ''Collapsible'', ''Badge'',
      ''Tag'', ''Toast'', ''ScreenSwitch'', ''ContentTab'']"

definition VALID_CONTAINERS :: "string list" where
  "VALID_CONTAINERS =
     [''Container'', ''Horizontal'', ''Vertical'', ''Tabs'', ''TabPane'',
      ''Collapsible'', ''ContentSwitcher'', ''ScreenSwitch'']"

definition VALID_EVENTS :: "string list" where
  "VALID_EVENTS =
     [''Mount'', ''Unmount'', ''Key'', ''Click'', ''Button'', ''Input'',
      ''ListView'', ''Tab'', ''Switch'', ''CheckBox'', ''Tree'', ''Log'',
      ''Message'', ''Event'']"

definition DEPRECATED_WIDGETS :: "string list" where
  "DEPRECATED_WIDGETS = [''FooterTui'', ''HeaderTui'']"

definition PERFORMANCE_TIPS :: "string list" where
  "PERFORMANCE_TIPS =
     [''Use 'content-align' instead of nested containers for alignment'',
      ''Cache frequently accessed widgets with query_one()'',
      ''Use 'disabled' attribute instead of removing/re-adding widgets'',
      ''Minimize DOM queries by storing widget references'',
      ''Use CSS classes for common styling instead of inline styles'',
      ''Consider using 'reactive' for frequently changing values'',
      ''Use 'Lazy' widgets for large lists or grids'']"

text \<open>
  The fields of \<open>TextualValidator\<close> (\<open>fix_opt\<close> is its \<open>fix\<close>), and \<open>printed\<close>: the lines
  written to standard output.
\<close>

record validator =
  verbose :: bool
  fix_opt :: bool
  errors :: "string list"
  warnings :: "string list"
  suggestions :: "string list"
  fixes_applied :: "string list"
  ast_tree :: "node option"
  file_path :: "string option"
  printed :: "string list"

definition init :: "bool \<Rightarrow> bool \<Rightarrow> validator" where
  "init v f =
     \<lparr>verbose = v, fix_opt = f, errors = [], warnings = [], suggestions = [],
      fixes_applied = [], ast_tree = None, file_path = None, printed = []\<rparr>"

definition add_error :: "string \<Rightarrow> validator \<Rightarrow> validator" where
  "add_error m s = s\<lparr>errors := errors s @ [m]\<rparr>"

definition add_warning :: "string \<Rightarrow> validator \<Rightarrow> validator" where
  "add_warning m s = s\<lparr>warnings := warnings s @ [m]\<rparr>"

definition add_suggestion :: "string \<Rightarrow> validator \<Rightarrow> validator" where
  "add_suggestion m s = s\<lparr>suggestions := suggestions s @ [m]\<rparr>"

definition CHECK_MARK :: string where
  "CHECK_MARK = [CHR 0xE2, CHR 0x9C, CHR 0x93]"

definition log :: "string \<Rightarrow> validator \<Rightarrow> validator" where
  "log message s =
     (if verbose s then s\<lparr>printed := printed s @ [''  '' @ CHECK_MARK @ '' '' @ message]\<rparr>
      else s)"

subsection \<open>Style blocks\<close>

definition css_line :: "nat \<times> string \<Rightarrow> validator \<Rightarrow> validator" where
  "css_line il s =
     (let i = fst il; line = strip (snd il) in
      if line = [] \<or> startswith line ''/*'' then s
      else
        let s1 = (if CHR ''{'' \<in> set line \<and> CHR ''}'' \<notin> set line
                  then add_error (''Unclosed CSS block starting at line '' @ str_nat i) s
                  else s);
            s2 = (if count_char line CHR ''{'' \<noteq> count_char line CHR ''}''
                  then add_error (''Mismatched braces in CSS at line '' @ str_nat i) s1
                  else s1)
        in if str_in ''import'' (lower line)
           then add_error (''CSS import statement found at line '' @ str_nat i @ '' (not supported)'') s2
           else s2)"

definition validate_css_content :: "string \<Rightarrow> validator \<Rightarrow> validator" where
  "validate_css_content css s =
     (let lines = split_char NL css;
          s1 = fold css_line (zip [1 ..< Suc (length lines)] lines) s
      in if \<not> str_in ''quantum:'' css \<and> \<not> str_in ''dark:'' css
         then add_warning ''Consider defining 'quantum' or 'dark' theme variants'' s1
         else s1)"

fun css_assign :: "node \<Rightarrow> exn + const list" where
  "css_assign (Assign targets v) =
     (case targets of
        [] \<Rightarrow> Inl (IndexError ''list index out of range'')
      | t # ts \<Rightarrow>
          (case t of
             Name i \<Rightarrow>
               if i = ''CSS'' then (case v of Constant c \<Rightarrow> Inr [c] | _ \<Rightarrow> Inr [])
               else Inr []
           | _ \<Rightarrow> Inr []))"
| "css_assign n = Inr []"

fun collect_css :: "node list \<Rightarrow> exn + const list" where
  "collect_css [] = Inr []"
| "collect_css (n # ns) =
     (case css_assign n of
        Inl e \<Rightarrow> Inl e
      | Inr cs \<Rightarrow> (case collect_css ns of Inl e \<Rightarrow> Inl e | Inr ds \<Rightarrow> Inr (cs @ ds)))"

text \<open>A value that is not a \<open>str\<close> makes \<open>css.split\<close> raise; what was recorded before stays.\<close>

fun css_contents :: "const list \<Rightarrow> validator \<Rightarrow> validator \<times> exn option" where
  "css_contents [] s = (s, None)"
| "css_contents (CStr css # cs) s = css_contents cs (validate_css_content css s)"
| "css_contents (CBytes b # cs) s =
     (s, Some (TypeError ''a bytes-like object is required, not str''))"
| "css_contents (COther # cs) s =
     (s, Some (AttributeError ''object has no attribute split''))"

definition validate_css :: "validator \<Rightarrow> validator \<times> exn option" where
  "validate_css s =
     (case ast_tree s of
        None \<Rightarrow> (s, None)
      | Some tree \<Rightarrow>
          (case collect_css (walk tree) of
             Inl e \<Rightarrow> (s, Some e)
           | Inr css_strings \<Rightarrow>
               (case css_contents css_strings s of
                  (s1, None) \<Rightarrow> (log ''Validated CSS'' s1, None)
                | (s1, Some e) \<Rightarrow> (s1, Some e))))"

subsection \<open>Imports\<close>

fun import_names :: "node \<Rightarrow> string list" where
  "import_names (ImportFrom m names) =
     (case m of
        None \<Rightarrow> []
      | Some md \<Rightarrow> if md \<noteq> [] \<and> str_in ''textual'' md then names else [])"
| "import_names (Import names) = names"
| "import_names n = []"

definition validate_imports :: "validator \<Rightarrow> validator" where
  "validate_imports s =
     (case ast_tree s of
        None \<Rightarrow> s
      | Some tree \<Rightarrow>
          let imports = concat (map import_names (walk tree));
              s1 = (if ''App'' \<notin> set imports \<and> ''app'' \<notin> set imports
                    then add_error ''Missing required import: from textual.app import App'' s
                    else s);
              s2 = (if ''ComposeResult'' \<notin> set imports \<and> ''compose_result'' \<notin> set imports
                    then add_warning ''Consider importing ComposeResult for type hints'' s1
                    else s1)
          in log ''Validated imports'' s2)"

subsection \<open>Class structure\<close>

fun check_return_annotation :: "node \<Rightarrow> string \<Rightarrow> bool" where
  "check_return_annotation (FunctionDef nm args body decorators returns) expected =
     (case returns of
        None \<Rightarrow> False
      | Some r \<Rightarrow> (case r of Name i \<Rightarrow> i = expected | _ \<Rightarrow> False))"
| "check_return_annotation n expected = False"

text \<open>One round of the loop over the class body; the flag is \<open>has_compose\<close>.\<close>

fun app_method :: "string \<Rightarrow> node \<Rightarrow> validator \<times> bool \<Rightarrow> validator \<times> bool" where
  "app_method cname (FunctionDef nm args body decorators returns) (s, has_compose) =
     (if nm = ''compose'' then
        let s1 = (if returns = None
                  then add_warning (''Method 'compose' in '' @ cname @
                         '' should have return type hint (ComposeResult)'') s
                  else s);
            s2 = (if \<not> check_return_annotation
                          (FunctionDef nm args body decorators returns) ''ComposeResult''
                  then add_warning (''Method 'compose' in '' @ cname @
                         '' should return ComposeResult'') s1
                  else s1)
        in (s2, True)
      else if nm = ''on_mount'' then (s, has_compose)
      else if nm = ''on_key'' then
        (add_suggestion (''Consider using BINDINGS instead of on_key in '' @ cname) s, has_compose)
      else (s, has_compose))"
| "app_method cname n st = st"

fun validate_app_methods :: "node \<Rightarrow> validator \<Rightarrow> validator" where
  "validate_app_methods (ClassDef cname bases keywords body decorators) s =
     (case fold (app_method cname) body (s, False) of
        (s1, has_compose) \<Rightarrow>
          let s2 = (if \<not> has_compose
                    then add_error (''App class '' @ cname @ '' is missing 'compose' method'') s1
                    else s1)
          in log (''Validated methods for '' @ cname) s2)"
| "validate_app_methods n s = s"

fun base_is_app :: "node \<Rightarrow> bool" where
  "base_is_app (Attribute v attr) =
     ((case v of Name i \<Rightarrow> i = ''App'' | _ \<Rightarrow> False) \<or> attr = ''App'')"
| "base_is_app n = False"

fun is_app_class :: "node \<Rightarrow> bool" where
  "is_app_class (ClassDef cname bases keywords body decorators) = list_ex base_is_app bases"
| "is_app_class n = False"

definition validate_class_structure :: "validator \<Rightarrow> validator" where
  "validate_class_structure s =
     (case ast_tree s of
        None \<Rightarrow> s
      | Some tree \<Rightarrow>
          let app_classes = filter is_app_class (walk tree) in
          if app_classes = [] then add_error ''No class inheriting from App found'' s
          else log (''Validated '' @ str_nat (length app_classes) @ '' App class(es)'')
                 (fold validate_app_methods app_classes s))"

subsection \<open>Widgets\<close>

text \<open>A dictionary in insertion order: a new key goes last, a known key keeps its place.\<close>

fun dict_get :: "('k \<times> 'v) list \<Rightarrow> 'k \<Rightarrow> 'v \<Rightarrow> 'v" where
  "dict_get [] k d = d"
| "dict_get ((k', v) # kvs) k d = (if k' = k then v else dict_get kvs k d)"

fun dict_set :: "('k \<times> 'v) list \<Rightarrow> 'k \<Rightarrow> 'v \<Rightarrow> ('k \<times> 'v) list" where
  "dict_set [] k v = [(k, v)]"
| "dict_set ((k', v') # kvs) k v =
     (if k' = k then (k, v) # kvs else (k', v') # dict_set kvs k v)"

fun widget_node ::
  "node \<Rightarrow> validator \<times> (string \<times> nat) list \<Rightarrow> validator \<times> (string \<times> nat) list" where
  "widget_node (Attribute v attr) (s, widget_usage) =
     (case v of
        Name widget_name \<Rightarrow>
          let usage = (if attr \<in> set VALID_WIDGETS
                       then dict_set widget_usage widget_name
                              (dict_get widget_usage widget_name 0 + 1)
                       else widget_usage);
              s1 = (if attr \<in> set DEPRECATED_WIDGETS
                    then add_error (''Deprecated widget '' @ [SQ] @ attr @ [SQ] @ '' found. Use '' @
                           [SQ] @ attr @ [SQ] @ '' replacement instead'') s
                    else s)
          in (s1, usage)
      | _ \<Rightarrow> (s, widget_usage))"
| "widget_node n st = st"

definition validate_widgets :: "validator \<Rightarrow> validator" where
  "validate_widgets s =
     (case ast_tree s of
        None \<Rightarrow> s
      | Some tree \<Rightarrow>
          (case fold widget_node (walk tree) (s, []) of
             (s1, widget_usage) \<Rightarrow>
               log (''Validated '' @ str_nat (sum_list (map snd widget_usage)) @ '' widget(s)'') s1))"

subsection \<open>Layouts\<close>

fun is_compose :: "node \<Rightarrow> bool" where
  "is_compose (FunctionDef nm args body decorators returns) = (nm = ''compose'')"
| "is_compose n = False"

fun is_yield :: "node \<Rightarrow> bool" where
  "is_yield (Yield v) = True"
| "is_yield n = False"

fun check_widget_in_yield :: "node \<Rightarrow> validator \<Rightarrow> validator" where
  "check_widget_in_yield (Call lineno func args keywords) s =
     (case func of
        Attribute v widget_name \<Rightarrow>
          if widget_name \<in> set VALID_CONTAINERS then s
          else if widget_name \<notin> set VALID_WIDGETS \<and> widget_name \<notin> set VALID_CONTAINERS
          then add_warning (''Unknown widget or container: '' @ widget_name) s
          else s
      | _ \<Rightarrow> s)"
| "check_widget_in_yield n s = s"

fun yield_node :: "node \<Rightarrow> validator \<Rightarrow> validator" where
  "yield_node (Yield v) s = (case v of None \<Rightarrow> s | Some e \<Rightarrow> check_widget_in_yield e s)"
| "yield_node n s = s"

definition validate_layouts :: "validator \<Rightarrow> validator" where
  "validate_layouts s =
     (case ast_tree s of
        None \<Rightarrow> s
      | Some tree \<Rightarrow>
          let yield_statements =
                (case find is_compose (walk tree) of
                   None \<Rightarrow> []
                 | Some n \<Rightarrow> filter is_yield (walk n));
              s1 = (if yield_statements = []
                    then add_warning ''No yield statements found in compose method'' s
                    else s)
          in log ''Validated layout structure'' (fold yield_node yield_statements s1))"

subsection \<open>Event handlers\<close>

fun args_args :: "node \<Rightarrow> string list" where
  "args_args (Arguments names cs) = names"
| "args_args n = []"

fun handler_node ::
  "node \<Rightarrow> validator \<times> (string \<times> string) list \<Rightarrow> validator \<times> (string \<times> string) list" where
  "handler_node (FunctionDef nm args body decorators returns) (s, event_handlers) =
     (if startswith nm ''on_'' then
        let parts = split_char CHR ''_'' (drop 3 nm);
            handlers = (if length parts \<ge> 2 then dict_set event_handlers nm (hd parts)
                        else event_handlers);
            s1 = (if args_args args = []
                  then add_warning (''Event handler '' @ [SQ] @ nm @ [SQ] @
                         '' should have event parameter'') s
                  else s)
        in (s1, handlers)
      else (s, event_handlers))"
| "handler_node n st = st"

definition event_type_check :: "string \<times> string \<Rightarrow> validator \<Rightarrow> validator" where
  "event_type_check he s =
     (if snd he \<notin> set VALID_EVENTS
      then add_warning (''Unknown event type '' @ [SQ] @ snd he @ [SQ] @ '' in handler '' @
             [SQ] @ fst he @ [SQ]) s
      else s)"

definition validate_event_handlers :: "validator \<Rightarrow> validator" where
  "validate_event_handlers s =
     (case ast_tree s of
        None \<Rightarrow> s
      | Some tree \<Rightarrow>
          (case fold handler_node (walk tree) (s, []) of
             (s1, event_handlers) \<Rightarrow>
               log (''Validated '' @ str_nat (length event_handlers) @ '' event handler(s)'')
                 (fold event_type_check event_handlers s1)))"

subsection \<open>Best practices\<close>

fun check_compose_best_practices :: "node \<Rightarrow> validator \<Rightarrow> validator" where
  "check_compose_best_practices (FunctionDef nm args body decorators returns) s =
     (let s1 = (if returns = None
                then add_suggestion ''Add return type hint to compose method'' s
                else s);
          yield_count =
            length (filter is_yield (walk (FunctionDef nm args body decorators returns)))
      in if yield_count < 2
         then add_warning ''compose method should yield at least Header and Footer'' s1
         else s1)"
| "check_compose_best_practices n s = s"

definition validate_best_practices :: "validator \<Rightarrow> validator" where
  "validate_best_practices s =
     (case ast_tree s of
        None \<Rightarrow> s
      | Some tree \<Rightarrow> fold check_compose_best_practices (filter is_compose (walk tree)) s)"

subsection \<open>Performance\<close>

text \<open>
  The loop of \<open>_validate_performance\<close>. Reading \<open>node.func.value.id\<close> raises when the
  receiver of \<open>query_one\<close> is not a plain name; what was recorded before stays.
\<close>

fun performance_loop :: "node list \<Rightarrow> validator \<Rightarrow> nat \<Rightarrow> validator \<times> (exn + nat)" where
  "performance_loop [] s query_count = (s, Inr query_count)"
| "performance_loop (Call lineno func args keywords # ns) s query_count =
     (case func of
        Attribute v attr \<Rightarrow>
          if attr = ''query_one'' then
            (case v of
               Name i \<Rightarrow>
                 performance_loop ns
                   (if i = ''self''
                    then add_suggestion
                           ''Consider caching query_one results to avoid repeated DOM queries'' s
                    else s)
                   (query_count + 1)
             | _ \<Rightarrow> (s, Inl (AttributeError ''object has no attribute id'')))
          else performance_loop ns s query_count
      | _ \<Rightarrow> performance_loop ns s query_count)"
| "performance_loop (n # ns) s query_count = performance_loop ns s query_count"

definition validate_performance :: "validator \<Rightarrow> validator \<times> exn option" where
  "validate_performance s =
     (case ast_tree s of
        None \<Rightarrow> (s, None)
      | Some tree \<Rightarrow>
          (case performance_loop (walk tree) s 0 of
             (s1, Inl e) \<Rightarrow> (s1, Some e)
           | (s1, Inr query_count) \<Rightarrow>
               let s2 = (if query_count > 5
                         then add_warning (''Found '' @ str_nat query_count @
                                '' query_one calls. Consider caching results.'') s1
                         else s1)
               in (log ''Validated performance'' s2, None)))"

subsection \<open>The repair of a missing import\<close>

definition fix_missing_imports :: "string \<Rightarrow> string" where
  "fix_missing_imports content =
     (let lines = split_char NL content in
      case first_index (\<lambda>line. startswith line ''from textual.app import'') lines of
        None \<Rightarrow> join [NL] (''from textual.app import App, ComposeResult'' # lines)
      | Some import_line_idx \<Rightarrow>
          if \<not> str_in ''ComposeResult'' (lines ! import_line_idx)
          then join [NL]
                 (lines[import_line_idx :=
                    replace (lines ! import_line_idx)
                      ''from textual.app import'' ''from textual.app import'' @
                    '', ComposeResult''])
          else join [NL] lines)"

definition fix_error :: "string \<Rightarrow> string \<Rightarrow> string" where
  "fix_error error content =
     (if str_in ''Missing required import'' error then fix_missing_imports content else content)"

definition attempt_fixes :: "fs \<Rightarrow> validator \<Rightarrow> validator \<times> fs" where
  "attempt_fixes files s =
     (case file_path s of
        None \<Rightarrow> (s, files)
      | Some p \<Rightarrow>
          (case read_file files p of
             Inl e \<Rightarrow> (add_error (''Failed to apply fixes: '' @ str_exn e) s, files)
           | Inr original_content \<Rightarrow>
               let content = fold fix_error (errors s) original_content in
               if content \<noteq> original_content then
                 (case write_file files p content of
                    Inl e \<Rightarrow> (add_error (''Failed to apply fixes: '' @ str_exn e) s, files)
                  | Inr files' \<Rightarrow>
                      (s\<lparr>fixes_applied := fixes_applied s @ [''Fixed missing imports''],
                         errors := [],
                         warnings := warnings s @ [''Auto-fixes applied. Re-run validation.'']\<rparr>,
                       files'))
               else (s, files)))"

subsection \<open>\<open>validate_file\<close> and the report\<close>

text \<open>The checks of one file, in order; an exception ends them.\<close>

definition run_checks :: "validator \<Rightarrow> validator \<times> exn option" where
  "run_checks s =
     (case validate_css
             (validate_event_handlers
               (validate_layouts
                 (validate_widgets
                   (validate_class_structure
                     (validate_imports s))))) of
        (s1, Some e) \<Rightarrow> (s1, Some e)
      | (s1, None) \<Rightarrow> validate_performance (validate_best_practices s1))"

text \<open>The two \<open>except\<close> clauses of \<open>validate_file\<close>.\<close>

fun failed :: "exn \<Rightarrow> validator \<Rightarrow> validator" where
  "failed (SyntaxError m) s = add_error (''Syntax error: '' @ m) s"
| "failed e s = add_error (''Validation error: '' @ str_exn e) s"

text \<open>
  \<open>parse\<close> stands for \<open>ast.parse\<close>: the tree of a source text, or the exception it raises.
  The result is the verdict, the validator and the file system afterwards.
\<close>

definition validate_file ::
  "(string \<Rightarrow> exn + node) \<Rightarrow> fs \<Rightarrow> string \<Rightarrow> validator \<Rightarrow> bool \<times> validator \<times> fs" where
  "validate_file parse files path s0 =
     (let s = s0\<lparr>file_path := Some path\<rparr> in
      case files path of
        None \<Rightarrow> (False, add_error (''File not found: '' @ path) s, files)
      | Some entry \<Rightarrow>
          (case read_file files path of
             Inl e \<Rightarrow> (False, failed e s, files)
           | Inr content \<Rightarrow>
               (case parse content of
                  Inl e \<Rightarrow> (False, failed e s, files)
                | Inr tree \<Rightarrow>
                    (case run_checks (s\<lparr>ast_tree := Some tree\<rparr>) of
                       (s1, Some e) \<Rightarrow> (False, failed e s1, files)
                     | (s1, None) \<Rightarrow>
                         (case (if fix_opt s1 \<and> errors s1 \<noteq> [] then attempt_fixes files s1
                                else (s1, files)) of
                            (s2, files') \<Rightarrow> (errors s2 = [], s2, files'))))))"

definition CROSS_MARK :: string where
  "CROSS_MARK = [CHR 0xE2, CHR 0x9D, CHR 0x8C]"

definition GREEN_CHECK :: string where
  "GREEN_CHECK = [CHR 0xE2, CHR 0x9C, CHR 0x85]"

definition WARNING_SIGN :: string where
  "WARNING_SIGN = [CHR 0xE2, CHR 0x9A, CHR 0xA0, CHR 0xEF, CHR 0xB8, CHR 0x8F]"

definition LIGHT_BULB :: string where
  "LIGHT_BULB = [CHR 0xF0, CHR 0x9F, CHR 0x92, CHR 0xA1]"

definition WRENCH :: string where
  "WRENCH = [CHR 0xF0, CHR 0x9F, CHR 0x94, CHR 0xA7]"

definition CLIPBOARD :: string where
  "CLIPBOARD = [CHR 0xF0, CHR 0x9F, CHR 0x93, CHR 0x8B]"

definition BULLET :: string where
  "BULLET = [CHR 0xE2, CHR 0x80, CHR 0xA2]"

definition rule70 :: string where
  "rule70 = replicate 70 CHR ''=''"

definition numbered :: "string list \<Rightarrow> string list" where
  "numbered xs =
     map (\<lambda>ix. ''  '' @ str_nat (fst ix) @ ''. '' @ snd ix) (zip [1 ..< Suc (length xs)] xs)"

definition report_section :: "string \<Rightarrow> string list \<Rightarrow> string list" where
  "report_section title xs =
     (if xs \<noteq> [] then (NL # title @ '' ('' @ str_nat (length xs) @ ''):'') # numbered xs else [])"

text \<open>The line of \<open>print_report\<close> that gives the verdict.\<close>

definition verdict_line :: "validator \<Rightarrow> string" where
  "verdict_line s =
     (if errors s = [] then GREEN_CHECK @ '' VALIDATION PASSED''
      else CROSS_MARK @ '' VALIDATION FAILED ('' @ str_nat (length (errors s)) @ '' error(s))'')"

definition print_report :: "validator \<Rightarrow> validator" where
  "print_report s =
     s\<lparr>printed := printed s @
        [NL # rule70,
         ''VALIDATION REPORT: '' @
           (case file_path s of None \<Rightarrow> ''N/A'' | Some p \<Rightarrow> last (split_char CHR ''/'' p)),
         rule70] @
        report_section (CROSS_MARK @ '' ERRORS'') (errors s) @
        report_section (WARNING_SIGN @ ''  WARNINGS'') (warnings s) @
        report_section (LIGHT_BULB @ '' SUGGESTIONS'') (suggestions s) @
        report_section (WRENCH @ '' FIXES APPLIED'') (fixes_applied s) @
        [NL # rule70, verdict_line s, rule70 @ [NL]] @
        (if suggestions s \<noteq> []
         then (CLIPBOARD @ '' PERFORMANCE TIPS:'') #
              map (\<lambda>tip. ''  '' @ BULLET @ '' '' @ tip) (take 5 PERFORMANCE_TIPS) @ [[]]
         else [])\<rparr>"

subsection \<open>Example sources\<close>

text \<open>
  A parser that knows the listed sources and raises \<open>SyntaxError\<close> on any other text; it
  stands for \<open>ast.parse\<close> on the examples.
\<close>

definition parse_table :: "(string \<times> node) list \<Rightarrow> string \<Rightarrow> exn + node" where
  "parse_table table content =
     (case map_of table content of
        None \<Rightarrow> Inl (SyntaxError ''invalid syntax'')
      | Some tree \<Rightarrow> Inr tree)"

text \<open>
  \<^verbatim>\<open>class MyApp(App):\<close>
  \<^verbatim>\<open>    CSS = """Screen { background: red;"""\<close>
\<close>

definition unbalanced_css :: string where
  "unbalanced_css = ''Screen { background: red;''"

definition css_app :: node where
  "css_app =
     Module [ClassDef ''MyApp'' [Name ''App''] []
       [Assign [Name ''CSS''] (Constant (CStr unbalanced_css))] []]"

text \<open>
  \<^verbatim>\<open>class MyApp(App):\<close>
  \<^verbatim>\<open>    def compose(self):\<close>
  \<^verbatim>\<open>        yield Button("x")\<close>
\<close>

definition button_app :: node where
  "button_app =
     Module [ClassDef ''MyApp'' [Name ''App''] []
       [FunctionDef ''compose'' (Arguments [''self''] [Other []])
          [Expr (Yield (Some (Call 3 (Name ''Button'') [Constant (CStr ''x'')] [])))]
          [] None]
       []]"

text \<open>
  \<^verbatim>\<open>from textual import widgets\<close>
  \<^verbatim>\<open>class MyApp(App):\<close>
  \<^verbatim>\<open>    def compose(self):\<close>
  \<^verbatim>\<open>        yield widgets.FooterTui()\<close>
\<close>

definition deprecated_attr_app :: node where
  "deprecated_attr_app =
     Module [ImportFrom (Some ''textual'') [''widgets''],
       ClassDef ''MyApp'' [Name ''App''] []
         [FunctionDef ''compose'' (Arguments [''self''] [Other []])
            [Expr (Yield (Some (Call 4 (Attribute (Name ''widgets'') ''FooterTui'') [] [])))]
            [] None]
         []]"

text \<open>
  \<^verbatim>\<open>from textual.widgets import FooterTui\<close>
  \<^verbatim>\<open>class MyApp(App):\<close>
  \<^verbatim>\<open>    def compose(self):\<close>
  \<^verbatim>\<open>        yield FooterTui()\<close>
\<close>

definition deprecated_name_app :: node where
  "deprecated_name_app =
     Module [ImportFrom (Some ''textual.widgets'') [''FooterTui''],
       ClassDef ''MyApp'' [Name ''App''] []
         [FunctionDef ''compose'' (Arguments [''self''] [Other []])
            [Expr (Yield (Some (Call 4 (Name ''FooterTui'') [] [])))]
            [] None]
         []]"

text \<open>A source whose only error is the missing import of \<open>App\<close>, and its tree.\<close>

definition qualified_app_src :: string where
  "qualified_app_src =
     join [NL]
       [''from textual.app import ComposeResult'',
        ''import textual.app'',
        ''import textual.widgets'',
        '''',
        ''class MyApp(textual.app.App):'',
        ''    def compose(self) -> ComposeResult:'',
        ''        yield textual.widgets.Header()'',
        ''        yield textual.widgets.Footer()'',
        '''']"

definition qualified_app :: node where
  "qualified_app =
     Module [ImportFrom (Some ''textual.app'') [''ComposeResult''],
       Import [''textual.app''],
       Import [''textual.widgets''],
       ClassDef ''MyApp'' [Attribute (Attribute (Name ''textual'') ''app'') ''App''] []
         [FunctionDef ''compose'' (Arguments [''self''] [Other []])
            [Expr (Yield (Some (Call 7
               (Attribute (Attribute (Name ''textual'') ''widgets'') ''Header'') [] []))),
             Expr (Yield (Some (Call 8
               (Attribute (Attribute (Name ''textual'') ''widgets'') ''Footer'') [] [])))]
            [] (Some (Name ''ComposeResult''))]
         []]"

definition one_file :: "string \<Rightarrow> string \<Rightarrow> fs" where
  "one_file p content = (\<lambda>q. if q = p then Some (File content True) else None)"

text \<open>The source of \<open>button_app\<close>.\<close>

definition button_app_src :: string where
  "button_app_src =
     join [NL]
       [''class MyApp(App):'',
        ''    def compose(self):'',
        ''        yield Button('' @ [CHR 0x22] @ ''x'' @ [CHR 0x22] @ '')'',
        '''']"

section \<open>The debugger\<close>

record DebugConfig =
  trace_events :: bool
  trace_widgets :: bool
  trace_layout :: bool
  profile_performance :: bool
  log_file :: "string option"
  verbose_debug :: bool

text \<open>
  \<open>WidgetInfo\<close>; \<open>wtype\<close>, \<open>wid\<close> and \<open>wsize\<close> are its \<open>type\<close>, \<open>id\<close> and \<open>size\<close>.
\<close>

record WidgetInfo =
  name :: string
  wtype :: string
  wid :: "string option"
  classes :: "string list"
  parent :: "string option"
  children :: "string list"
  wsize :: "(int \<times> int) option"
  visible :: bool

subsection \<open>The walk over the live widgets\<close>

text \<open>
  A live object as the walk sees it: the name of its type, its identity \<open>id(node)\<close>, its
  \<open>id\<close> attribute, its \<open>classes\<close> attribute and its \<open>_nodes\<close> attribute (\<open>None\<close> when
  the object has none). \<open>Broken\<close> is an object whose inspection raises.
\<close>

datatype live =
    Live string nat "string option" "string list option" "live list option"
  | Broken

fun extract_widgets_from_node :: "live \<Rightarrow> string option \<Rightarrow> WidgetInfo list" where
  "extract_widgets_from_node (Live widget_type ident node_id node_classes nodes) par =
     (let widget_name = widget_type @ ''_'' @ str_nat ident;
          child_widgets =
            (case nodes of
               None \<Rightarrow> []
             | Some cs \<Rightarrow> concat (map (\<lambda>child. extract_widgets_from_node child (Some widget_name)) cs));
          widget_info =
            \<lparr>name = widget_name, wtype = widget_type, wid = node_id,
             classes = (case node_classes of None \<Rightarrow> [] | Some cl \<Rightarrow> cl),
             parent = par, children = map name child_widgets,
             wsize = None, visible = True\<rparr>
      in widget_info # child_widgets)"
| "extract_widgets_from_node Broken par = []"

text \<open>
  The application as \<open>get_widget_tree\<close> reads it: whether \<open>_context\<close> is there and true,
  and its \<open>screen\<close> (\<open>None\<close> when reading it raises).
\<close>

record live_app =
  app_context :: bool
  app_screen :: "live option"

definition get_widget_tree :: "live_app \<Rightarrow> WidgetInfo list" where
  "get_widget_tree app_instance =
     (if app_context app_instance then
        (case app_screen app_instance of
           None \<Rightarrow> []
         | Some screen \<Rightarrow> extract_widgets_from_node screen None)
      else [])"

subsection \<open>The widget tree as text\<close>

definition TREE_BRANCH :: string where
  "TREE_BRANCH = [CHR 0xE2, CHR 0x94, CHR 0x9C, CHR 0xE2, CHR 0x94, CHR 0x80]"

definition widget_line :: "WidgetInfo \<Rightarrow> nat \<Rightarrow> string" where
  "widget_line widget depth =
     concat (replicate depth ''  '') @ TREE_BRANCH @ '' '' @ wtype widget @
     (case wid widget of
        None \<Rightarrow> []
      | Some i \<Rightarrow> if i \<noteq> [] then '' (id: '' @ i @ '')'' else []) @
     (if classes widget \<noteq> [] then '' [classes: '' @ join '', '' (classes widget) @ '']'' else []) @
     (if \<not> visible widget then '' (hidden)'' else [])"

function render_widget ::
  "(string \<Rightarrow> WidgetInfo option) \<Rightarrow> int \<Rightarrow> WidgetInfo \<Rightarrow> nat \<Rightarrow> string list" where
  "render_widget widget_map max_depth widget depth =
     (if int depth > max_depth then []
      else widget_line widget depth #
           concat (map (\<lambda>child_name.
                          case widget_map child_name of
                            None \<Rightarrow> []
                          | Some child \<Rightarrow> render_widget widget_map max_depth child (depth + 1))
                       (children widget)))"
  by pat_completeness auto
termination
  by (relation "measure (\<lambda>(widget_map, max_depth, widget, depth). nat (max_depth + 1 - int depth))")
     auto

declare render_widget.simps [simp del]

definition is_root :: "(string \<Rightarrow> WidgetInfo option) \<Rightarrow> WidgetInfo \<Rightarrow> bool" where
  "is_root widget_map w =
     (case parent w of None \<Rightarrow> True | Some p \<Rightarrow> widget_map p = None)"

definition format_widget_tree :: "WidgetInfo list \<Rightarrow> int \<Rightarrow> string" where
  "format_widget_tree widgets max_depth =
     (if widgets = [] then ''No widgets found''
      else
        let widget_map = map_of (rev (map (\<lambda>w. (name w, w)) widgets));
            root_widgets = filter (is_root widget_map) widgets
        in join [NL]
             ([''WIDGET TREE'', rule70] @
              concat (map (\<lambda>root_widget. render_widget widget_map max_depth root_widget 0)
                        root_widgets) @
              [rule70]))"

subsection \<open>The layout analysis\<close>

text \<open>
  The operands that the layout analysis compares with \<open>>\<close> against an integer. Python
  orders two integers and raises \<open>TypeError\<close> for a list against an integer.
\<close>

datatype operand = IntVal int | ListVal "WidgetInfo list"

fun py_gt_int :: "operand \<Rightarrow> int \<Rightarrow> exn + bool" where
  "py_gt_int (IntVal a) b = Inr (a > b)"
| "py_gt_int (ListVal xs) b =
     Inl (TypeError (''> not supported between instances of list and int''))"

text \<open>
  \<open>w.type not in containers\<close> looks for a string among \<open>WidgetInfo\<close> values; a string
  equals none of them.
\<close>

definition str_eq_widget :: "string \<Rightarrow> WidgetInfo \<Rightarrow> bool" where
  "str_eq_widget t w = False"

text \<open>
  The \<open>while parent:\<close> loop. It follows the names of the parents and need not end when
  they form a cycle: no result is \<open>None\<close>.
\<close>

partial_function (option) depth_loop ::
  "WidgetInfo list \<Rightarrow> string option \<Rightarrow> nat \<Rightarrow> nat option" where
  "depth_loop widgets par depth =
     (case par of
        None \<Rightarrow> Some depth
      | Some p \<Rightarrow>
          if p = [] then Some depth
          else depth_loop widgets
                 (case find (\<lambda>w. name w = p) widgets of
                    None \<Rightarrow> None
                  | Some parent_widget \<Rightarrow> parent parent_widget)
                 (depth + 1))"

fun max_depth_loop :: "WidgetInfo list \<Rightarrow> WidgetInfo list \<Rightarrow> nat \<Rightarrow> nat option" where
  "max_depth_loop widgets [] max_depth = Some max_depth"
| "max_depth_loop widgets (widget # rest) max_depth =
     (if parent widget \<noteq> None \<and> parent widget \<noteq> Some [] then
        (case depth_loop widgets (parent widget) 1 of
           None \<Rightarrow> None
         | Some depth \<Rightarrow> max_depth_loop widgets rest (max max_depth depth))
      else max_depth_loop widgets rest max_depth)"

definition count_type :: "WidgetInfo \<Rightarrow> (string \<times> nat) list \<Rightarrow> (string \<times> nat) list" where
  "count_type container container_types =
     dict_set container_types (wtype container) (dict_get container_types (wtype container) 0 + 1)"

text \<open>
  \<open>analyze_layout\<close>: the text of the analysis, or the exception it raises; \<open>None\<close> when
  the depth loop does not end.
\<close>

definition analyze_layout :: "WidgetInfo list \<Rightarrow> (exn + string) option" where
  "analyze_layout widgets =
     (let containers =
            filter (\<lambda>w. wtype w \<in> set [''Container'', ''Horizontal'', ''Vertical'', ''Grid'']) widgets;
          widgets_without_containers =
            filter (\<lambda>w. \<not> list_ex (str_eq_widget (wtype w)) containers) widgets;
          lines1 =
            [''LAYOUT ANALYSIS'', rule70,
             NL # ''Total widgets: '' @ str_nat (length widgets),
             ''Containers: '' @ str_nat (length containers),
             ''Regular widgets: '' @ str_nat (length widgets_without_containers)]
      in case py_gt_int (ListVal widgets_without_containers) 5 of
           Inl e \<Rightarrow> Some (Inl e)
         | Inr many \<Rightarrow>
             let lines2 =
                   lines1 @
                   (if many
                    then [NL # WARNING_SIGN @
                          ''  WARNING: Many widgets without containers may cause layout issues'']
                    else []) @
                   [NL # ''Container distribution:''] @
                   map (\<lambda>tc. ''  '' @ fst tc @ '': '' @ str_nat (snd tc))
                     (fold count_type containers [])
             in (case max_depth_loop widgets widgets 0 of
                   None \<Rightarrow> None
                 | Some max_depth \<Rightarrow>
                     (case py_gt_int (IntVal (int max_depth)) 5 of
                        Inl e \<Rightarrow> Some (Inl e)
                      | Inr deep \<Rightarrow>
                          Some (Inr (join [NL]
                            (lines2 @
                             [NL # ''Maximum nesting depth: '' @ str_nat max_depth] @
                             (if deep
                              then [NL # WARNING_SIGN @
                                    ''  WARNING: Deep nesting may impact performance'']
                              else []) @
                             [NL # ''Layout recommendations:'',
                              ''  '' @ BULLET @ '' Use Horizontal/Vertical for simple layouts'',
                              ''  '' @ BULLET @ '' Use Grid for complex layouts'',
                              ''  '' @ BULLET @ '' Avoid excessive nesting (>5 levels)'',
                              ''  '' @ BULLET @ '' Consider using CSS grid for 2D layouts'',
                              ''  '' @ BULLET @ '' Use content-align for simple alignment'',
                              rule70]))))))"

subsection \<open>The analysis of a source file\<close>

fun widget_of_call :: "node \<Rightarrow> WidgetInfo list" where
  "widget_of_call (Call lineno func args kws) =
     (case func of
        Attribute v widget_type \<Rightarrow>
          if widget_type \<in> set [''Container'', ''Button'', ''Label'', ''Input'', ''Static'']
          then [\<lparr>name = widget_type @ ''_'' @ str_nat lineno, wtype = widget_type, wid = None,
                 classes = [], parent = None, children = [], wsize = None, visible = True\<rparr>]
          else []
      | _ \<Rightarrow> [])"
| "widget_of_call n = []"

definition extract_widgets_from_ast :: "node \<Rightarrow> WidgetInfo list" where
  "extract_widgets_from_ast tree = concat (map widget_of_call (walk tree))"

text \<open>What the handler of \<open>analyze_app_file\<close> prints: its message, then the traceback.\<close>

definition error_report :: "exn \<Rightarrow> string list" where
  "error_report e =
     [''Error analyzing app: '' @ str_exn e,
      ''Traceback (most recent call last):'' @ [NL] @ exn_name e @ '': '' @ str_exn e]"

text \<open>
  \<open>analyze_app_file\<close>: the texts it prints, in order. \<open>profiled\<close> stands for what the
  profiling step prints; that step loads and runs the application.
\<close>

definition analyze_app_file ::
  "(string \<Rightarrow> exn + node) \<Rightarrow> fs \<Rightarrow> string list \<Rightarrow> string \<Rightarrow> DebugConfig
     \<Rightarrow> string list option" where
  "analyze_app_file parse files profiled app_file config =
     (case read_file files app_file of
        Inl e \<Rightarrow> Some (error_report e)
      | Inr content \<Rightarrow>
          (case parse content of
             Inl e \<Rightarrow> Some (error_report e)
           | Inr tree \<Rightarrow>
               let widgets = extract_widgets_from_ast tree;
                   out1 = (if trace_widgets config \<or> verbose_debug config
                           then [format_widget_tree widgets 5] else []);
                   out3 = (if profile_performance config then profiled else [])
               in if trace_layout config \<or> verbose_debug config then
                    (case analyze_layout widgets of
                       None \<Rightarrow> None
                     | Some (Inl e) \<Rightarrow> Some (out1 @ error_report e)
                     | Some (Inr layout_analysis) \<Rightarrow>
                         Some (out1 @ [NL # layout_analysis] @ out3))
                  else Some (out1 @ out3)))"

subsection \<open>Event tracing\<close>

text \<open>An event, as the tracer reads it: the name of its class and its \<open>str\<close>.\<close>

datatype event = Event string string

fun event_class :: "event \<Rightarrow> string" where
  "event_class (Event c s) = c"

fun event_str :: "event \<Rightarrow> string" where
  "event_str (Event c s) = s"

record EventInfo =
  event_type :: string
  timestamp :: real
  source :: string
  target :: string
  data :: "(string \<times> string) list"

text \<open>
  The fields of \<open>TextualDebugger\<close> that the tracer uses, and \<open>printed_debug\<close>: the lines
  written to standard output.
\<close>

record TextualDebugger =
  config :: DebugConfig
  events_log :: "EventInfo list"
  widgets :: "WidgetInfo list"
  start_time :: real
  printed_debug :: "string list"

text \<open>\<open>_trace_event\<close> of the debugger; \<open>now\<close> is the reading of \<open>time.time()\<close>.\<close>

definition trace_event :: "real \<Rightarrow> string \<Rightarrow> event \<Rightarrow> TextualDebugger \<Rightarrow> TextualDebugger" where
  "trace_event now etype ev d =
     d\<lparr>events_log := events_log d @
          [\<lparr>event_type = etype, timestamp = now - start_time d, source = event_str ev,
            target = ''app'', data = [(''type'', event_class ev)]\<rparr>],
        printed_debug := printed_debug d @
          (if verbose_debug (config d) then [''[EVENT] '' @ etype @ '': '' @ event_str ev]
           else [])\<rparr>"

text \<open>
  The application object: its attributes by name, in the order of \<open>dir\<close>. A callable
  attribute takes its arguments and the state of the application, and gives a result or
  an exception and the state afterwards.
\<close>

datatype arg = StrArg string | EventArg event

datatype ('r, 'st) attr =
    Callable "arg list \<Rightarrow> 'st \<Rightarrow> (exn + 'r) \<times> 'st"
  | Data

type_synonym ('r, 'st) pyobject = "(string \<times> ('r, 'st) attr) list"

definition call_method ::
  "('r, 'st) pyobject \<Rightarrow> string \<Rightarrow> arg list \<Rightarrow> 'st \<Rightarrow> (exn + 'r) \<times> 'st" where
  "call_method obj method_name args st =
     (case map_of obj method_name of
        None \<Rightarrow> (Inl (AttributeError (''object has no attribute '' @ method_name)), st)
      | Some Data \<Rightarrow> (Inl (TypeError ''object is not callable''), st)
      | Some (Callable f) \<Rightarrow> f args st)"

text \<open>
  The function \<open>handler(self, event)\<close> that \<open>make_traced_handler(name)\<close> returns, bound
  with \<open>__get__(self.app, type(self.app))\<close>: its \<open>self\<close> is the application, so
  \<open>self._trace_event\<close> is the attribute \<open>_trace_event\<close> of the application, given here
  as \<open>self_trace_event\<close>. The loop replaces only attributes whose names start with
  \<open>on_\<close>, so this attribute is what the application had before the loop.
\<close>

definition handler ::
  "('r, 'st) attr option \<Rightarrow> (string \<times> (arg list \<Rightarrow> 'st \<Rightarrow> (exn + 'r) \<times> 'st)) list \<Rightarrow>
   string \<Rightarrow> arg list \<Rightarrow> 'st \<Rightarrow> (exn + 'r) \<times> 'st" where
  "handler self_trace_event original_methods method_name args st =
     (case args of
        [ev] \<Rightarrow>
          (case self_trace_event of
             None \<Rightarrow> (Inl (AttributeError ''object has no attribute _trace_event''), st)
           | Some Data \<Rightarrow> (Inl (TypeError ''object is not callable''), st)
           | Some (Callable f) \<Rightarrow>
               (case f [StrArg method_name, ev] st of
                  (Inl e, st1) \<Rightarrow> (Inl e, st1)
                | (Inr r, st1) \<Rightarrow>
                    (case map_of original_methods method_name of
                       None \<Rightarrow> (Inl (KeyError method_name), st1)
                     | Some original_method \<Rightarrow> original_method [ev] st1)))
      | _ \<Rightarrow> (Inl (TypeError ''handler() takes 2 positional arguments''), st))"

fun original_method_of ::
  "string \<times> ('r, 'st) attr \<Rightarrow> (string \<times> (arg list \<Rightarrow> 'st \<Rightarrow> (exn + 'r) \<times> 'st)) list" where
  "original_method_of (method_name, Callable f) =
     (if startswith method_name ''on_'' then [(method_name, f)] else [])"
| "original_method_of (method_name, Data) = []"

fun traced ::
  "('r, 'st) attr option \<Rightarrow> (string \<times> (arg list \<Rightarrow> 'st \<Rightarrow> (exn + 'r) \<times> 'st)) list \<Rightarrow>
   string \<times> ('r, 'st) attr \<Rightarrow> string \<times> ('r, 'st) attr" where
  "traced self_trace_event original_methods (method_name, Callable f) =
     (if startswith method_name ''on_''
      then (method_name, Callable (handler self_trace_event original_methods method_name))
      else (method_name, Callable f))"
| "traced self_trace_event original_methods (method_name, Data) = (method_name, Data)"

definition setup_event_tracing ::
  "DebugConfig \<Rightarrow> ('r, 'st) pyobject \<Rightarrow> ('r, 'st) pyobject" where
  "setup_event_tracing cfg app =
     (if \<not> trace_events cfg then app
      else map (traced (map_of app ''_trace_event'') (concat (map original_method_of app))) app)"

subsection \<open>Example inputs of the debugger\<close>

text \<open>A screen that holds a container that holds a button.\<close>

definition nested_app :: live_app where
  "nested_app =
     \<lparr>app_context = True,
      app_screen = Some
        (Live ''Screen'' 1 None None (Some
          [Live ''Container'' 2 None None (Some
            [Live ''Button'' 3 (Some ''ok'') None (Some [])])]))\<rparr>"

definition chain_widget :: "string \<Rightarrow> string option \<Rightarrow> WidgetInfo" where
  "chain_widget widget_name par =
     \<lparr>name = widget_name, wtype = ''Container'', wid = None, classes = [],
      parent = par, children = [], wsize = None, visible = True\<rparr>"

text \<open>Six containers, each inside the one before.\<close>

definition chain6 :: "WidgetInfo list" where
  "chain6 =
     [chain_widget ''c1'' None,
      chain_widget ''c2'' (Some ''c1''),
      chain_widget ''c3'' (Some ''c2''),
      chain_widget ''c4'' (Some ''c3''),
      chain_widget ''c5'' (Some ''c4''),
      chain_widget ''c6'' (Some ''c5'')]"

definition layout_config :: DebugConfig where
  "layout_config =
     \<lparr>trace_events = False, trace_widgets = False, trace_layout = True,
      profile_performance = False, log_file = None, verbose_debug = False\<rparr>"

definition events_config :: DebugConfig where
  "events_config =
     \<lparr>trace_events = True, trace_widgets = False, trace_layout = False,
      profile_performance = False, log_file = None, verbose_debug = False\<rparr>"

text \<open>
  An application whose state is the number of keys pressed, with the handler \<open>on_key\<close>
  and a title.
\<close>

definition key_counter_app :: "(unit, nat) pyobject" where
  "key_counter_app =
     [(''on_key'', Callable (\<lambda>args presses. (Inr (), presses + 1))),
      (''title'', Data)]"

text \<open>\<open>qualified_app_src\<close> with \<open>App\<close> imported too, and its tree.\<close>

definition imported_app_src :: string where
  "imported_app_src =
     join [NL]
       [''from textual.app import App, ComposeResult'',
        ''import textual.app'',
        ''import textual.widgets'',
        '''',
        ''class MyApp(textual.app.App):'',
        ''    def compose(self) -> ComposeResult:'',
        ''        yield textual.widgets.Header()'',
        ''        yield textual.widgets.Footer()'',
        '''']"

definition imported_app :: node where
  "imported_app =
     Module [ImportFrom (Some ''textual.app'') [''App'', ''ComposeResult''],
       Import [''textual.app''],
       Import [''textual.widgets''],
       ClassDef ''MyApp'' [Attribute (Attribute (Name ''textual'') ''app'') ''App''] []
         [FunctionDef ''compose'' (Arguments [''self''] [Other []])
            [Expr (Yield (Some (Call 7
               (Attribute (Attribute (Name ''textual'') ''widgets'') ''Header'') [] []))),
             Expr (Yield (Some (Call 8
               (Attribute (Attribute (Name ''textual'') ''widgets'') ''Footer'') [] [])))]
            [] (Some (Name ''ComposeResult''))]
         []]"

section \<open>Verified properties\<close>

subsection \<open>What the recording functions keep\<close>

lemma errors_add_error [simp]: "errors (add_error m s) = errors s @ [m]"
  by (simp add: add_error_def)

lemma errors_add_warning [simp]: "errors (add_warning m s) = errors s"
  by (simp add: add_warning_def)

lemma errors_add_suggestion [simp]: "errors (add_suggestion m s) = errors s"
  by (simp add: add_suggestion_def)

lemma errors_log [simp]: "errors (log m s) = errors s"
  by (simp add: log_def)

lemma errors_failed: "errors (failed e s) \<noteq> []"
  by (cases e) simp_all

subsection \<open>The verdict\<close>

lemma passed_not_failed:
  "GREEN_CHECK @ '' VALIDATION PASSED'' \<noteq> CROSS_MARK @ '' VALIDATION FAILED ('' @ n"
  by (simp add: GREEN_CHECK_def CROSS_MARK_def)

text \<open>
  Claim C1. \<open>validate_file\<close> returns \<open>True\<close> exactly when the error sequence is empty
  when the run finishes, whatever warnings and suggestions were recorded, and the report
  then prints the PASSED verdict exactly in that case. This holds on every path of
  \<open>validate_file\<close>: a missing file, a read or parse failure and an exception in a check
  each record an error and return \<open>False\<close>.
\<close>

theorem validate_file_verdict:
  "fst (validate_file parse files path s0)
     = (errors (fst (snd (validate_file parse files path s0))) = []) \<and>
   (verdict_line (fst (snd (validate_file parse files path s0)))
      = GREEN_CHECK @ '' VALIDATION PASSED'')
     = fst (validate_file parse files path s0)"
proof -
  obtain ok s' files' where r: "validate_file parse files path s0 = (ok, s', files')"
    by (cases "validate_file parse files path s0") auto
  have "ok = (errors s' = [])"
    using r errors_failed
    by (auto simp: validate_file_def Let_def
             split: option.splits sum.splits prod.splits if_splits)
  moreover have "(verdict_line s' = GREEN_CHECK @ '' VALIDATION PASSED'') = (errors s' = [])"
    using passed_not_failed by (auto simp: verdict_line_def)
  ultimately show ?thesis
    by (simp add: r)
qed

subsection \<open>Style blocks\<close>

lemma unbalanced_line:
  "split_char NL unbalanced_css = [unbalanced_css]"
  "strip unbalanced_css = unbalanced_css"
  "startswith unbalanced_css ''/*'' = False"
  "str_in ''import'' (lower unbalanced_css) = False"
  "count_char unbalanced_css CHR ''{'' = 1"
  "count_char unbalanced_css CHR ''}'' = 0"
  "(CHR ''{'' \<in> set unbalanced_css) = True"
  "(CHR ''}'' \<in> set unbalanced_css) = False"
  "(unbalanced_css = []) = False"
  "str_nat (Suc 0) = ''1''"
  by code_simp+

lemma unbalanced_content:
  "errors (validate_css_content unbalanced_css s) =
     errors s @ [''Unclosed CSS block starting at line 1'',
                 ''Mismatched braces in CSS at line 1'']"
  unfolding validate_css_content_def unbalanced_line
  by (simp add: css_line_def unbalanced_line Let_def)

lemma walk_css_app:
  "collect_css (walk css_app) = Inr [CStr unbalanced_css]"
  by code_simp

text \<open>
  Claim C6, as the code has it. For the style block that is the single line
  \<open>Screen { background: red;\<close> the style-block validator records exactly two errors, and
  both cite line 1, the line of the unmatched brace: the line has an opening brace and
  no closing one, and its counts of the two braces differ. Each of the two tests of
  \<open>_validate_css_content\<close> records its own error.
\<close>

theorem unbalanced_css_two_errors:
  "errors (fst (validate_css (s\<lparr>ast_tree := Some css_app\<rparr>))) =
     errors s @ [''Unclosed CSS block starting at line 1'',
                 ''Mismatched braces in CSS at line 1''] \<and>
   snd (validate_css (s\<lparr>ast_tree := Some css_app\<rparr>)) = None"
proof -
  have c: "errors (validate_css_content unbalanced_css (s\<lparr>ast_tree := Some css_app\<rparr>)) =
     errors s @ [''Unclosed CSS block starting at line 1'',
                 ''Mismatched braces in CSS at line 1'']"
    by (simp add: unbalanced_content)
  show ?thesis
    by (simp add: validate_css_def walk_css_app c)
qed

text \<open>
  Claim C6 as stated fails: on a fresh validator the number of errors for this style
  block is not one.
\<close>

theorem unbalanced_css_not_one_error:
  "length (errors (fst (validate_css ((init False False)\<lparr>ast_tree := Some css_app\<rparr>)))) \<noteq> 1"
  by (simp add: validate_css_def walk_css_app unbalanced_content)

subsection \<open>The example application of the specification\<close>

text \<open>
  Claim C2, evaluated on the code. For the file that holds only the class \<open>MyApp(App)\<close>
  with \<open>def compose(self): yield Button("x")\<close>, \<open>_validate_class_structure\<close> records the
  error "No class inheriting from App found": it accepts a base only when the base is an
  attribute expression, and the base \<open>App\<close> is a plain name. The other two parts of the
  claim hold: the layout check records no unknown-widget warning, and the best-practice
  check warns that fewer than two values are yielded.
\<close>

theorem button_app_not_recognised:
  "errors (validate_class_structure ((init False False)\<lparr>ast_tree := Some button_app\<rparr>)) =
     [''No class inheriting from App found''] \<and>
   warnings (validate_layouts ((init False False)\<lparr>ast_tree := Some button_app\<rparr>)) = [] \<and>
   warnings (validate_best_practices ((init False False)\<lparr>ast_tree := Some button_app\<rparr>)) =
     [''compose method should yield at least Header and Footer'']"
  by code_simp

subsection \<open>Deprecated widgets\<close>

text \<open>
  Claim C7, evaluated on the code. For \<open>widgets.FooterTui()\<close> the error names
  \<open>FooterTui\<close> itself as the replacement, not \<open>Footer\<close>; for the bare name
  \<open>FooterTui()\<close> no check of the validator records an error that mentions it.
\<close>

theorem deprecated_widget_errors:
  "errors (validate_widgets ((init False False)\<lparr>ast_tree := Some deprecated_attr_app\<rparr>)) =
     [''Deprecated widget '' @ [SQ] @ ''FooterTui'' @ [SQ] @ '' found. Use '' @
      [SQ] @ ''FooterTui'' @ [SQ] @ '' replacement instead''] \<and>
   errors (validate_widgets ((init False False)\<lparr>ast_tree := Some deprecated_name_app\<rparr>)) = [] \<and>
   filter (str_in ''FooterTui'')
     (errors (fst (run_checks ((init False False)\<lparr>ast_tree := Some deprecated_name_app\<rparr>)))) = []"
  by code_simp

subsection \<open>The repair of a missing import\<close>

text \<open>
  Claim C4, evaluated on the code. The source \<open>qualified_app_src\<close> has one error, the
  missing import of \<open>App\<close>. Validation with the repair enabled leaves the file as it
  was, records no fix, and still reports the error: the file has a line that starts with
  \<open>from textual.app import\<close> and names \<open>ComposeResult\<close>, and for such a line
  \<open>_fix_missing_imports\<close> changes nothing.
\<close>

theorem missing_import_not_repaired:
  "errors (fst (snd (validate_file (parse_table [(qualified_app_src, qualified_app)])
      (one_file ''app.py'' qualified_app_src) ''app.py'' (init False False)))) =
     [''Missing required import: from textual.app import App''] \<and>
   fst (validate_file (parse_table [(qualified_app_src, qualified_app)])
      (one_file ''app.py'' qualified_app_src) ''app.py'' (init False True)) = False \<and>
   errors (fst (snd (validate_file (parse_table [(qualified_app_src, qualified_app)])
      (one_file ''app.py'' qualified_app_src) ''app.py'' (init False True)))) =
     [''Missing required import: from textual.app import App''] \<and>
   fixes_applied (fst (snd (validate_file (parse_table [(qualified_app_src, qualified_app)])
      (one_file ''app.py'' qualified_app_src) ''app.py'' (init False True)))) = [] \<and>
   snd (snd (validate_file (parse_table [(qualified_app_src, qualified_app)])
      (one_file ''app.py'' qualified_app_src) ''app.py'' (init False True))) ''app.py'' =
     Some (File qualified_app_src True) \<and>
   fix_missing_imports qualified_app_src = qualified_app_src"
  by code_simp

subsection \<open>The checks keep the path of the file\<close>

lemma file_path_add [simp]:
  "file_path (add_error m s) = file_path s"
  "file_path (add_warning m s) = file_path s"
  "file_path (add_suggestion m s) = file_path s"
  "file_path (log m s) = file_path s"
  by (simp_all add: add_error_def add_warning_def add_suggestion_def log_def)

lemma fold_file_path:
  assumes "\<And>x s. file_path (f x s) = file_path s"
  shows "file_path (fold f xs s) = file_path s"
  using assms by (induction xs arbitrary: s) simp_all

lemma fold_fst_file_path:
  assumes "\<And>x s d. file_path (fst (f x (s, d))) = file_path s"
  shows "file_path (fst (fold f xs (s, d))) = file_path s"
proof (induction xs arbitrary: s d)
  case Nil
  show ?case by simp
next
  case (Cons x xs)
  obtain s' d' where step: "f x (s, d) = (s', d')"
    by (cases "f x (s, d)") auto
  have "file_path s' = file_path s"
    using assms [of x s d] by (simp add: step)
  then show ?case
    using Cons.IH [of s' d'] by (simp add: step)
qed

lemma file_path_validate_imports: "file_path (validate_imports s) = file_path s"
  by (simp add: validate_imports_def Let_def split: option.splits)

lemma file_path_app_method: "file_path (fst (app_method cname n (s, d))) = file_path s"
  by (cases n) (simp_all add: Let_def)

lemma file_path_validate_app_methods: "file_path (validate_app_methods n s) = file_path s"
proof (cases n)
  case (ClassDef cname bases kws body decorators)
  have "file_path (fst (fold (app_method cname) body (s, False))) = file_path s"
    by (rule fold_fst_file_path) (rule file_path_app_method)
  then show ?thesis
    using ClassDef by (auto simp: Let_def split: prod.splits)
qed simp_all

lemma file_path_validate_class_structure:
  "file_path (validate_class_structure s) = file_path s"
  by (simp add: validate_class_structure_def Let_def fold_file_path
        file_path_validate_app_methods split: option.splits)

lemma file_path_widget_node: "file_path (fst (widget_node n (s, d))) = file_path s"
  by (cases n) (simp_all add: Let_def split: node.splits)

lemma file_path_validate_widgets: "file_path (validate_widgets s) = file_path s"
proof (cases "ast_tree s")
  case None
  then show ?thesis by (simp add: validate_widgets_def)
next
  case (Some tree)
  have "file_path (fst (fold widget_node (walk tree) (s, []))) = file_path s"
    by (rule fold_fst_file_path) (rule file_path_widget_node)
  then show ?thesis
    using Some by (auto simp: validate_widgets_def split: prod.splits)
qed

lemma file_path_check_widget_in_yield: "file_path (check_widget_in_yield n s) = file_path s"
  by (cases n) (simp_all split: node.splits)

lemma file_path_yield_node: "file_path (yield_node n s) = file_path s"
  by (cases n) (simp_all add: file_path_check_widget_in_yield split: option.splits)

lemma file_path_validate_layouts: "file_path (validate_layouts s) = file_path s"
  by (simp add: validate_layouts_def Let_def fold_file_path file_path_yield_node
        split: option.splits)

lemma file_path_handler_node: "file_path (fst (handler_node n (s, d))) = file_path s"
  by (cases n) (simp_all add: Let_def)

lemma file_path_event_type_check: "file_path (event_type_check he s) = file_path s"
  by (simp add: event_type_check_def)

lemma file_path_validate_event_handlers: "file_path (validate_event_handlers s) = file_path s"
proof (cases "ast_tree s")
  case None
  then show ?thesis by (simp add: validate_event_handlers_def)
next
  case (Some tree)
  have "file_path (fst (fold handler_node (walk tree) (s, []))) = file_path s"
    by (rule fold_fst_file_path) (rule file_path_handler_node)
  then show ?thesis
    using Some
    by (auto simp: validate_event_handlers_def fold_file_path file_path_event_type_check
          split: prod.splits)
qed

lemma file_path_css_line: "file_path (css_line il s) = file_path s"
  by (simp add: css_line_def Let_def)

lemma file_path_validate_css_content: "file_path (validate_css_content css s) = file_path s"
  by (simp add: validate_css_content_def Let_def fold_file_path file_path_css_line)

lemma file_path_css_contents: "file_path (fst (css_contents cs s)) = file_path s"
  by (induction cs s rule: css_contents.induct)
     (simp_all add: file_path_validate_css_content)

lemma file_path_validate_css: "file_path (fst (validate_css s)) = file_path s"
proof (cases "ast_tree s")
  case None
  then show ?thesis by (simp add: validate_css_def)
next
  case (Some tree)
  show ?thesis
  proof (cases "collect_css (walk tree)")
    case (Inl e)
    then show ?thesis using Some by (simp add: validate_css_def)
  next
    case (Inr cs)
    have "file_path (fst (css_contents cs s)) = file_path s"
      by (rule file_path_css_contents)
    then show ?thesis
      using Some Inr by (auto simp: validate_css_def split: prod.splits option.splits)
  qed
qed

lemma file_path_check_compose_best_practices:
  "file_path (check_compose_best_practices n s) = file_path s"
  by (cases n) (simp_all add: Let_def)

lemma file_path_validate_best_practices: "file_path (validate_best_practices s) = file_path s"
  by (simp add: validate_best_practices_def fold_file_path
        file_path_check_compose_best_practices split: option.splits)

lemma file_path_performance_loop:
  "file_path (fst (performance_loop ns s q)) = file_path s"
  by (induction ns s q rule: performance_loop.induct) (simp_all split: node.splits)

lemma file_path_validate_performance: "file_path (fst (validate_performance s)) = file_path s"
proof (cases "ast_tree s")
  case None
  then show ?thesis by (simp add: validate_performance_def)
next
  case (Some tree)
  have "file_path (fst (performance_loop (walk tree) s 0)) = file_path s"
    by (rule file_path_performance_loop)
  then show ?thesis
    using Some
    by (auto simp: validate_performance_def Let_def split: prod.splits sum.splits)
qed

lemma file_path_run_checks: "file_path (fst (run_checks s)) = file_path s"
proof -
  let ?t = "validate_event_handlers (validate_layouts (validate_widgets
              (validate_class_structure (validate_imports s))))"
  have t: "file_path ?t = file_path s"
    by (simp add: file_path_validate_event_handlers file_path_validate_layouts
          file_path_validate_widgets file_path_validate_class_structure
          file_path_validate_imports)
  obtain s1 r where c: "validate_css ?t = (s1, r)"
    by (cases "validate_css ?t") auto
  have s1: "file_path s1 = file_path s"
    using file_path_validate_css [of ?t] by (simp add: c t)
  show ?thesis
  proof (cases r)
    case None
    then show ?thesis
      by (simp add: run_checks_def c file_path_validate_performance
            file_path_validate_best_practices s1)
  next
    case (Some e)
    then show ?thesis by (simp add: run_checks_def c s1)
  qed
qed

subsection \<open>The repair engine\<close>

lemma fold_fix_error_other:
  "list_all (\<lambda>e. \<not> str_in ''Missing required import'' e) es \<Longrightarrow> fold fix_error es c = c"
  by (induction es arbitrary: c) (simp_all add: fix_error_def)

lemma read_file_content:
  assumes "read_file files p = Inr c"
  shows "\<exists>w. files p = Some (File c w)"
  using assms by (auto split: option.splits file_entry.splits)

lemma attempt_fixes_outcome:
  assumes fp: "file_path s = Some p"
      and rd: "read_file files p = Inr original"
  shows "(fold fix_error (errors s) original = original \<and> attempt_fixes files s = (s, files)) \<or>
         (fold fix_error (errors s) original \<noteq> original \<and>
          (\<exists>e. attempt_fixes files s =
                 (add_error (''Failed to apply fixes: '' @ str_exn e) s, files))) \<or>
         (fold fix_error (errors s) original \<noteq> original \<and>
          attempt_fixes files s =
            (s\<lparr>fixes_applied := fixes_applied s @ [''Fixed missing imports''],
               errors := [],
               warnings := warnings s @ [''Auto-fixes applied. Re-run validation.'']\<rparr>,
             files(p \<mapsto> File (fold fix_error (errors s) original) True)))"
proof -
  obtain w where f: "files p = Some (File original w)"
    using read_file_content [OF rd] by auto
  show ?thesis
  proof (cases w)
    case True
    then show ?thesis
      using fp f by (simp add: attempt_fixes_def Let_def)
  next
    case False
    let ?e = "OSError (''[Errno 13] Permission denied: '' @ p)"
    have r: "attempt_fixes files s =
           (if fold fix_error (errors s) original = original then (s, files)
            else (add_error (''Failed to apply fixes: '' @ str_exn ?e) s, files))"
      using fp f False by (simp add: attempt_fixes_def Let_def)
    show ?thesis
    proof (cases "fold fix_error (errors s) original = original")
      case True
      then show ?thesis using r by simp
    next
      case False
      then have "attempt_fixes files s =
                   (add_error (''Failed to apply fixes: '' @ str_exn ?e) s, files)"
        using r by simp
      then show ?thesis using False by blast
    qed
  qed
qed

text \<open>
  Claim C5. \<open>validate_file\<close> runs the repair engine on the validator \<open>s1\<close> left by the
  checks of a file that it has just read. In every such run: when a fix record is
  appended, the file has been rewritten with a content that differs from the one read;
  when the file is rewritten, the errors are cleared, the warning to run validation again
  is appended and the fix record is appended; and when no error is a missing-import
  error, the validator (errors, warnings and fixes applied with it) and the file system
  are unchanged.
\<close>

theorem auto_fix_engine_conservative:
  assumes rd: "read_file files path = Inr content"
      and ck: "run_checks (s0\<lparr>file_path := Some path, ast_tree := Some tree\<rparr>) = (s1, None)"
      and fx: "attempt_fixes files s1 = (s2, files')"
  shows "(fixes_applied s2 \<noteq> fixes_applied s1 \<longrightarrow>
            (\<exists>c. c \<noteq> content \<and> files' = files(path \<mapsto> File c True))) \<and>
         (files' \<noteq> files \<longrightarrow>
            errors s2 = [] \<and>
            warnings s2 = warnings s1 @ [''Auto-fixes applied. Re-run validation.''] \<and>
            fixes_applied s2 = fixes_applied s1 @ [''Fixed missing imports'']) \<and>
         (list_all (\<lambda>e. \<not> str_in ''Missing required import'' e) (errors s1) \<longrightarrow>
            s2 = s1 \<and> files' = files)"
proof -
  have "file_path (fst (run_checks (s0\<lparr>file_path := Some path, ast_tree := Some tree\<rparr>)))
          = Some path"
    by (simp add: file_path_run_checks)
  then have fp: "file_path s1 = Some path"
    by (simp add: ck)
  show ?thesis
    using attempt_fixes_outcome [OF fp rd] fx
    by (auto simp: add_error_def fold_fix_error_other)
qed

text \<open>
  A run of the engine on the source of \<open>button_app\<close>, which has no import line: the
  import is put first, the errors are cleared and the fix is recorded.
\<close>

theorem auto_fix_engine_conservative_witness:
  "read_file (one_file ''app.py'' button_app_src) ''app.py'' = Inr button_app_src \<and>
   snd (run_checks ((init False True)\<lparr>file_path := Some ''app.py'', ast_tree := Some button_app\<rparr>))
     = None \<and>
   snd (attempt_fixes (one_file ''app.py'' button_app_src)
          (fst (run_checks ((init False True)\<lparr>file_path := Some ''app.py'',
             ast_tree := Some button_app\<rparr>)))) ''app.py''
     = Some (File (''from textual.app import App, ComposeResult'' @ [NL] @ button_app_src) True) \<and>
   errors (fst (attempt_fixes (one_file ''app.py'' button_app_src)
          (fst (run_checks ((init False True)\<lparr>file_path := Some ''app.py'',
             ast_tree := Some button_app\<rparr>))))) = [] \<and>
   fixes_applied (fst (attempt_fixes (one_file ''app.py'' button_app_src)
          (fst (run_checks ((init False True)\<lparr>file_path := Some ''app.py'',
             ast_tree := Some button_app\<rparr>))))) = [''Fixed missing imports'']"
proof -
  let ?files = "one_file ''app.py'' button_app_src"
  let ?s = "(init False True)\<lparr>file_path := Some ''app.py'', ast_tree := Some button_app\<rparr>"
  let ?s1 = "fst (run_checks ?s)"
  let ?r = "attempt_fixes ?files ?s1"
  have rd: "read_file ?files ''app.py'' = Inr button_app_src"
    by (simp add: one_file_def)
  have none: "snd (run_checks ?s) = None"
    by code_simp
  have ck: "run_checks ?s = (?s1, None)"
    using none by (simp add: prod_eq_iff)
  have fx: "?r = (fst ?r, snd ?r)"
    by simp
  have new: "snd ?r ''app.py'' =
      Some (File (''from textual.app import App, ComposeResult'' @ [NL] @ button_app_src) True)"
    by code_simp
  have old: "?files ''app.py'' = Some (File button_app_src True)"
    by (simp add: one_file_def)
  have changed: "snd ?r \<noteq> ?files"
  proof
    assume "snd ?r = ?files"
    then have "snd ?r ''app.py'' = ?files ''app.py''"
      by simp
    then show False
      by (simp add: new old)
  qed
  have fa: "fixes_applied ?s1 = []"
    by code_simp
  show ?thesis
    using auto_fix_engine_conservative [OF rd ck fx] changed rd none new fa
    by simp
qed

subsection \<open>The widget tree of a live application\<close>

text \<open>
  Claim C3, evaluated on the code. For a screen that holds a container that holds a
  button, the walk completes and gives three nodes. The parents are right, but the
  children of the screen are the container and the button: \<open>_extract_widgets_from_node\<close>
  extends \<open>children\<close> with the names of every node that the walk of a child returns, that
  is with all descendants. The button, whose parent is the container, is also among the
  children of the screen, so it is in the children of two nodes.
\<close>

theorem nested_app_children:
  "map (\<lambda>w. (name w, parent w, children w)) (get_widget_tree nested_app) =
     [(''Screen_1'', None, [''Container_2'', ''Button_3'']),
      (''Container_2'', Some ''Screen_1'', [''Button_3'']),
      (''Button_3'', Some ''Container_2'', [])]"
  by code_simp

subsection \<open>The layout analysis\<close>

lemma analyze_layout_type_error:
  "analyze_layout ws =
     Some (Inl (TypeError ''> not supported between instances of list and int''))"
  by (simp add: analyze_layout_def Let_def)

text \<open>
  Claim C10. For every list of widgets, the empty one too, \<open>analyze_layout\<close> raises
  \<open>TypeError\<close> at the comparison of the list \<open>widgets_without_containers\<close> with 5, before
  the container distribution and the nesting depth are computed, and returns no text.
  In \<open>analyze_app_file\<close>, when the layout is traced (or the run is verbose) for a file
  that is read and parsed, the exception ends the \<open>try\<close> block: after the widget tree,
  if that is printed, only the message and the traceback of the handler are printed, and
  neither the layout analysis nor the profile.
\<close>

theorem analyze_layout_always_raises:
  "analyze_layout ws =
     Some (Inl (TypeError ''> not supported between instances of list and int'')) \<and>
   (read_file files app_file = Inr content \<and> parse content = Inr tree \<and>
    (trace_layout cfg \<or> verbose_debug cfg) \<longrightarrow>
    analyze_app_file parse files profiled app_file cfg =
      Some ((if trace_widgets cfg \<or> verbose_debug cfg
             then [format_widget_tree (extract_widgets_from_ast tree) 5] else []) @
            error_report (TypeError ''> not supported between instances of list and int'')))"
  by (simp add: analyze_layout_type_error analyze_app_file_def Let_def)

text \<open>
  The analysis of \<open>qualified_app_src\<close> with the layout traced prints the message of the
  handler and the traceback, and nothing else.
\<close>

theorem analyze_layout_always_raises_witness:
  "read_file (one_file ''app.py'' qualified_app_src) ''app.py'' = Inr qualified_app_src \<and>
   parse_table [(qualified_app_src, qualified_app)] qualified_app_src = Inr qualified_app \<and>
   trace_layout layout_config \<and>
   analyze_layout [] =
     Some (Inl (TypeError ''> not supported between instances of list and int'')) \<and>
   analyze_app_file (parse_table [(qualified_app_src, qualified_app)])
       (one_file ''app.py'' qualified_app_src) [] ''app.py'' layout_config =
     Some (error_report (TypeError ''> not supported between instances of list and int''))"
proof -
  have rd: "read_file (one_file ''app.py'' qualified_app_src) ''app.py'' = Inr qualified_app_src"
    by (simp add: one_file_def)
  have ps: "parse_table [(qualified_app_src, qualified_app)] qualified_app_src = Inr qualified_app"
    by (simp add: parse_table_def)
  have tl: "trace_layout layout_config" "\<not> trace_widgets layout_config"
    "\<not> verbose_debug layout_config"
    by (simp_all add: layout_config_def)
  show ?thesis
    using analyze_layout_always_raises
            [of "[]" "one_file ''app.py'' qualified_app_src" "''app.py''" qualified_app_src
                "parse_table [(qualified_app_src, qualified_app)]" qualified_app
                layout_config "[]"]
          rd ps tl
    by simp
qed

text \<open>
  Claim C8, evaluated on the code. For six containers nested in one another the depth
  loop computes the depth 6, which exceeds 5; but \<open>analyze_layout\<close> raises \<open>TypeError\<close>
  before it reaches the loop, so no deep-nesting warning is produced.
\<close>

theorem deep_nesting_no_warning:
  "max_depth_loop chain6 chain6 0 = Some 6 \<and>
   analyze_layout chain6 =
     Some (Inl (TypeError ''> not supported between instances of list and int''))"
  by (simp add: chain6_def chain_widget_def depth_loop.simps analyze_layout_type_error)

subsection \<open>Event tracing\<close>

text \<open>
  Claim C9, evaluated on the code. Without tracing, \<open>on_key\<close> of the example
  application returns and counts the key. With tracing set up, the call of \<open>on_key\<close>
  raises \<open>AttributeError\<close> and the key is not counted: the wrapper is bound to the
  application, looks \<open>_trace_event\<close> up on it and does not find it, so no event is
  recorded and the original method is not called.
\<close>

theorem traced_handler_raises:
  "call_method key_counter_app ''on_key'' [EventArg (Event ''Key'' ''Key(a)'')] 0 =
     (Inr (), 1) \<and>
   call_method (setup_event_tracing events_config key_counter_app) ''on_key''
       [EventArg (Event ''Key'' ''Key(a)'')] 0 =
     (Inl (AttributeError ''object has no attribute _trace_event''), 0)"
  by code_simp

subsection \<open>Further facts\<close>

text \<open>
  A file with a compose method, the right return annotation and no error passes, with
  the two warnings it has.
\<close>

lemma passes_with_warnings:
  "fst (validate_file (parse_table [(imported_app_src, imported_app)])
      (one_file ''app.py'' imported_app_src) ''app.py'' (init False False)) = True \<and>
   warnings (fst (snd (validate_file (parse_table [(imported_app_src, imported_app)])
      (one_file ''app.py'' imported_app_src) ''app.py'' (init False False)))) =
     [''Unknown widget or container: Header'', ''Unknown widget or container: Footer'']"
  by code_simp

text \<open>
  With tracing set up, every handler of an application that has no attribute
  \<open>_trace_event\<close> raises \<open>AttributeError\<close> and leaves the state of the application as it
  was.
\<close>

lemma map_of_traced:
  assumes "map_of app n = Some (Callable f)" and "startswith n ''on_''"
  shows "map_of (map (traced te om) app) n = Some (Callable (handler te om n))"
  using assms
proof (induction app)
  case Nil
  then show ?case by simp
next
  case (Cons entry app)
  obtain m a where e: "entry = (m, a)"
    by (cases entry)
  show ?case
  proof (cases "m = n")
    case True
    then show ?thesis
      using Cons.prems e by simp
  next
    case False
    have "fst (traced te om (m, a)) = m"
      by (cases a) simp_all
    then have "map_of (traced te om (m, a) # map (traced te om) app) n =
                 map_of (map (traced te om) app) n"
      using False by (cases "traced te om (m, a)") auto
    then show ?thesis
      using Cons e False by simp
  qed
qed

lemma traced_call_raises:
  assumes "trace_events cfg" and "map_of app ''_trace_event'' = None"
      and "map_of app n = Some (Callable f)" and "startswith n ''on_''"
  shows "call_method (setup_event_tracing cfg app) n [ev] st =
           (Inl (AttributeError ''object has no attribute _trace_event''), st)"
  using assms map_of_traced [OF assms(3) assms(4)]
  by (simp add: call_method_def setup_event_tracing_def handler_def)

end
